theory Spec2Isabelle
  imports Main "HOL-Library.Word"
begin

section \<open>kernel/util/session.go\<close>

subsection \<open>The captcha predicate\<close>

text \<open>
  \<^verbatim>\<open>var WrongAuthCount int\<close> is a package variable; \<^verbatim>\<open>NeedCaptcha\<close> only compares
  it with the constant 3, so the counter is read as a mathematical integer and passed in.
\<close>

definition NeedCaptcha :: "int \<Rightarrow> bool" where
  "NeedCaptcha WrongAuthCount = (3 < WrongAuthCount)"

subsection \<open>Sessions, workspace entries and the object store\<close>

text \<open>
  \<^verbatim>\<open>SessionData.Workspaces\<close> is a Go map from workspace paths to pointers
  \<^verbatim>\<open>*WorkspaceSession\<close>. Pointer identity matters (callers mutate the entry that
  \<^verbatim>\<open>GetWorkspaceSession\<close> hands out), so the entries live in an explicit store: address
  \<open>a\<close> is position \<open>a\<close> of a list of objects, and \<^verbatim>\<open>&WorkspaceSession{}\<close> allocates at
  the end of that list. A map that is \<^verbatim>\<open>nil\<close> is \<open>None\<close>; a pointer that is \<^verbatim>\<open>nil\<close> is
  \<open>NilPtr\<close>.
\<close>

record WorkspaceSession =
  AccessAuthCode :: string
  Captcha :: string

datatype ptr = NilPtr | Ref nat

type_synonym store = "WorkspaceSession list"

record SessionData =
  Workspaces :: "(string \<rightharpoonup> ptr) option"

text \<open>The zero value \<^verbatim>\<open>WorkspaceSession{}\<close>.\<close>

definition zeroWorkspaceSession :: WorkspaceSession where
  "zeroWorkspaceSession = \<lparr>AccessAuthCode = [], Captcha = []\<rparr>"

text \<open>
  Reading \<^verbatim>\<open>session.Workspaces[dir]\<close>: a missing key, like a \<^verbatim>\<open>nil\<close> map, yields the zero
  value of the element type, the \<^verbatim>\<open>nil\<close> pointer.
\<close>

definition index_map :: "(string \<rightharpoonup> ptr) option \<Rightarrow> string \<Rightarrow> ptr" where
  "index_map ws dir =
     (case ws of
        None \<Rightarrow> NilPtr
      | Some m \<Rightarrow> (case m dir of None \<Rightarrow> NilPtr | Some p \<Rightarrow> p))"

text \<open>
  The entry of the map under a key, if it has one (an entry may hold \<^verbatim>\<open>nil\<close>); a \<^verbatim>\<open>nil\<close>
  map has no entries.
\<close>

definition entry_of :: "(string \<rightharpoonup> ptr) option \<Rightarrow> string \<Rightarrow> ptr option" where
  "entry_of ws dir = (case ws of None \<Rightarrow> None | Some m \<Rightarrow> m dir)"

text \<open>
  \<^verbatim>\<open>GetWorkspaceSession(session)\<close>, with the package variable \<^verbatim>\<open>WorkspaceDir\<close> as first
  argument. The session is mutated in place in the source; here the store and the session
  are returned updated, together with the returned pointer. The object that line 81
  allocates (\<^verbatim>\<open>ret = &WorkspaceSession{}\<close>) is overwritten by the map read on line 85
  before anything can refer to it, so no address is spent on it.
\<close>

definition GetWorkspaceSession ::
  "string \<Rightarrow> store \<times> SessionData \<Rightarrow> ptr \<times> store \<times> SessionData" where
  "GetWorkspaceSession WorkspaceDir hs =
     (let h = fst hs;
          session = snd hs;
          session = (if Workspaces session = None
                     then session\<lparr>Workspaces := Some Map.empty\<rparr> else session);
          ret = index_map (Workspaces session) WorkspaceDir
      in if ret = NilPtr
         then (let ret = Ref (length h)
               in (ret, h @ [zeroWorkspaceSession],
                   session\<lparr>Workspaces :=
                     Some ((the (Workspaces session))(WorkspaceDir \<mapsto> ret))\<rparr>))
         else (ret, h, session))"

text \<open>
  \<^verbatim>\<open>RemoveWorkspaceSession(session)\<close>: the builtin \<^verbatim>\<open>delete\<close> is a no-op on a \<^verbatim>\<open>nil\<close>
  map and on a missing key. The store is not touched.
\<close>

definition RemoveWorkspaceSession ::
  "string \<Rightarrow> store \<times> SessionData \<Rightarrow> store \<times> SessionData" where
  "RemoveWorkspaceSession WorkspaceDir hs =
     (let h = fst hs; session = snd hs
      in case Workspaces session of
           None \<Rightarrow> (h, session)
         | Some m \<Rightarrow> (h, session\<lparr>Workspaces := Some (m(WorkspaceDir := None))\<rparr>))"

section \<open>kernel/util/working.go\<close>

subsection \<open>Values of the Go runtime and of the libraries\<close>

text \<open>
  A Go \<^verbatim>\<open>error\<close> value: its message, and whether \<^verbatim>\<open>os.IsExist\<close> holds of it (the one
  classification the source asks for).
\<close>

datatype go_error = GoError (os_IsExist: bool) (Error: string)

definition errors_New :: "string \<Rightarrow> go_error" where
  "errors_New msg = GoError False msg"

text \<open>
  What the process writes: the leveled entries of the logging package and the lines
  printed with \<^verbatim>\<open>fmt\<close>. \<^verbatim>\<open>LogFatal\<close> is the entry \<^verbatim>\<open>logging.LogFatalf\<close> writes before it
  exits.
\<close>

datatype log_entry =
  LogInfo string | LogWarn string | LogError string | LogFatal string | Print string

text \<open>
  The exit statuses the source uses: the literal \<^verbatim>\<open>os.Exit(1)\<close> of the authorization
  gate and the two named constants of the logging package, kept symbolic.
\<close>

datatype exit_code = Exit1 | ExitCodeInitWorkspaceErr | ExitCodeWorkspaceLocked

text \<open>
  The content of a file, as far as the source looks at it: either the JSON text of an
  array of strings (held decoded), or any other bytes. For other bytes
  \<^verbatim>\<open>gulu.JSON.UnmarshalJSON\<close> into a \<^verbatim>\<open>[]string\<close> reports an error; \<open>Other xs\<close>
  records the elements \<open>xs\<close> the decoder has stored in the target by then (the caller in
  \<^verbatim>\<open>initWorkspaceDir\<close> drops the error and uses the slice).
\<close>

datatype file_data = JSONStrings "string list" | Other "string list"

text \<open>
  A \<^verbatim>\<open>*flock.Flock\<close>: the path of its lock file and whether this handle holds the lock.
\<close>

record Flock =
  lock_path :: string
  locked :: bool

subsection \<open>Package variables and the operating system\<close>

text \<open>
  One record holds the package variables of \<^verbatim>\<open>package util\<close> that
  \<^verbatim>\<open>working.go\<close> reads or writes (under the source's names; \<^verbatim>\<open>AccessAuthCode\<close> is
  \<open>AccessAuthCodeG\<close>, since the session entry has a field of that name) and the part of
  the operating system the code talks to: the environment, the directories and files that
  exist, what was logged, and, for every call that can fail for reasons outside the
  program, a table that says for which argument it fails and how
  (\<open>mkdirall_err\<close>, \<open>readfile_err\<close>, \<open>writefile_err\<close>, \<open>marshal_err\<close>, \<open>trylock_err\<close>,
  \<open>unlock_err\<close>, \<open>remove_err\<close>), and the lock files held by other processes.
  \<open>inDocker\<close> is the result of \<^verbatim>\<open>isRunningInDockerContainer()\<close>, whose body is not among
  the sources. \<^verbatim>\<open>SSL\<close> and \<^verbatim>\<open>UserAgent\<close> are declared in other files of the package.
\<close>

record sys =
  Mode :: string
  RunInContainer :: bool
  SiyuanAccessAuthCodeBypass :: bool
  bootProgress :: "32 word"
  bootDetails :: string
  HttpServing :: bool
  HomeDir :: string
  WorkingDir :: string
  WorkspaceDir :: string
  WorkspaceName :: string
  WorkspaceLock :: "Flock option"
  ConfDir :: string
  DataDir :: string
  RepoDir :: string
  HistoryDir :: string
  TempDir :: string
  LogPath :: string
  DBName :: string
  DBPath :: string
  HistoryDBPath :: string
  AssetContentDBPath :: string
  BlockTreeDBPath :: string
  AppearancePath :: string
  ThemesPath :: string
  IconsPath :: string
  SnippetsPath :: string
  ServerPort :: string
  ReadOnly :: bool
  AccessAuthCodeG :: string
  Lang :: string
  Container :: string
  ISMicrosoftStore :: bool
  SSL :: bool
  UserAgent :: string
  GOOS :: string
  inDocker :: bool
  environ :: "string \<rightharpoonup> string"
  dirs :: "string set"
  files :: "string \<rightharpoonup> file_data"
  mkdirall_err :: "string \<rightharpoonup> go_error"
  readfile_err :: "string \<rightharpoonup> go_error"
  writefile_err :: "string \<rightharpoonup> go_error"
  marshal_err :: "string list \<rightharpoonup> go_error"
  trylock_err :: "string \<rightharpoonup> go_error"
  held_elsewhere :: "string set"
  unlock_err :: "string \<rightharpoonup> go_error"
  remove_err :: "string \<rightharpoonup> go_error"
  logs :: "log_entry list"
  logging_path :: string

text \<open>
  A step of the boot path either ends the process (\<^verbatim>\<open>os.Exit\<close>: the status and the state
  it leaves behind) or continues with the updated state.
\<close>

type_synonym proc = "(exit_code \<times> sys) + sys"

definition andThen :: "proc \<Rightarrow> (sys \<Rightarrow> proc) \<Rightarrow> proc" where
  "andThen r f = (case r of Inl e \<Rightarrow> Inl e | Inr s \<Rightarrow> f s)"

definition logf :: "log_entry \<Rightarrow> sys \<Rightarrow> sys" where
  "logf e s = s\<lparr>logs := logs s @ [e]\<rparr>"

definition Ver :: string where
  "Ver = ''3.1.11''"

definition ContainerStd :: string where
  "ContainerStd = ''std''"

definition ContainerDocker :: string where
  "ContainerDocker = ''docker''"

definition FixedPort :: string where
  "FixedPort = ''6806''"

subsection \<open>Library calls\<close>

text \<open>\<^verbatim>\<open>os.Getenv\<close>: the value, or the empty string when the variable is unset.\<close>

definition os_Getenv :: "sys \<Rightarrow> string \<Rightarrow> string" where
  "os_Getenv s k = (case environ s k of None \<Rightarrow> [] | Some v \<Rightarrow> v)"

definition os_Setenv :: "string \<Rightarrow> string \<Rightarrow> sys \<Rightarrow> sys" where
  "os_Setenv k v s = s\<lparr>environ := (environ s)(k \<mapsto> v)\<rparr>"

text \<open>
  \<^verbatim>\<open>strconv.ParseBool\<close>: it accepts 1, t, T, TRUE, true, True, 0, f, F, FALSE, false,
  False; any other string is an error.
\<close>

definition strconv_ParseBool :: "string \<Rightarrow> go_error + bool" where
  "strconv_ParseBool str =
     (if str \<in> {''1'', ''t'', ''T'', ''TRUE'', ''true'', ''True''} then Inr True
      else if str \<in> {''0'', ''f'', ''F'', ''FALSE'', ''false'', ''False''} then Inr False
      else Inl (GoError False (''strconv.ParseBool: parsing '' @ str @ '': invalid syntax'')))"

text \<open>
  \<^verbatim>\<open>filepath.Join\<close>: the non-empty elements, separated by a slash. The lexical cleaning
  \<^verbatim>\<open>filepath.Clean\<close> applies to the result is not modelled: paths are taken as they are
  written.
\<close>

fun join_sep :: "string list \<Rightarrow> string" where
  "join_sep [] = []"
| "join_sep [x] = x"
| "join_sep (x # y # ys) = x @ ''/'' @ join_sep (y # ys)"

definition filepath_Join :: "string list \<Rightarrow> string" where
  "filepath_Join elem = join_sep (filter (\<lambda>e. e \<noteq> []) elem)"

text \<open>
  \<^verbatim>\<open>filepath.Base\<close>: the last element of the path, after trailing slashes are removed;
  a dot for the empty path and a slash for a path of slashes only.
\<close>

definition strip_slashes :: "string \<Rightarrow> string" where
  "strip_slashes path = rev (dropWhile (\<lambda>c. c = CHR ''/'') (rev path))"

definition filepath_Base :: "string \<Rightarrow> string" where
  "filepath_Base path =
     (if path = [] then ''.''
      else (let p = strip_slashes path
            in if p = [] then ''/''
               else rev (takeWhile (\<lambda>c. c \<noteq> CHR ''/'') (rev p))))"

text \<open>\<^verbatim>\<open>strings.TrimRight(s, cutset)\<close>: the trailing characters of the cutset are removed.\<close>

definition strings_TrimRight :: "string \<Rightarrow> string \<Rightarrow> string" where
  "strings_TrimRight str cutset = rev (dropWhile (\<lambda>c. c \<in> set cutset) (rev str))"

text \<open>
  Modelled from the spec: \<^verbatim>\<open>gulu.Str.RemoveDuplicatedElem\<close> belongs to the library
  \<^verbatim>\<open>github.com/88250/gulu\<close>, which is not among the sources. The spec says of it:
  it "removes duplicates preserving first-seen order". The elements are collected from
  left to right; one that was collected already is skipped.
\<close>

fun collect_new :: "string list \<Rightarrow> string list \<Rightarrow> string list" where
  "collect_new ret [] = ret"
| "collect_new ret (x # xs) = collect_new (if x \<in> set ret then ret else ret @ [x]) xs"

definition RemoveDuplicatedElem :: "string list \<Rightarrow> string list" where
  "RemoveDuplicatedElem elems = collect_new [] elems"

text \<open>\<^verbatim>\<open>gulu.File.IsDir\<close> and \<^verbatim>\<open>gulu.File.IsExist\<close>.\<close>

definition IsDir :: "sys \<Rightarrow> string \<Rightarrow> bool" where
  "IsDir s path = (path \<in> dirs s)"

definition IsExist :: "sys \<Rightarrow> string \<Rightarrow> bool" where
  "IsExist s path = (path \<in> dirs s \<or> files s path \<noteq> None)"

text \<open>
  \<^verbatim>\<open>os.MkdirAll\<close>: nothing to do for a directory that exists; otherwise the call fails
  as \<open>mkdirall_err\<close> says, or creates the directory and its ancestors (the prefixes of
  the path that end before a separator).
\<close>

fun cuts :: "string \<Rightarrow> string \<Rightarrow> string list" where
  "cuts acc [] = []"
| "cuts acc (c # cs) =
     (if c = CHR ''/'' \<and> acc \<noteq> [] then [acc] else []) @ cuts (acc @ [c]) cs"

definition ancestors :: "string \<Rightarrow> string list" where
  "ancestors path = cuts [] path"

definition os_MkdirAll :: "string \<Rightarrow> sys \<Rightarrow> go_error option \<times> sys" where
  "os_MkdirAll path s =
     (if path \<in> dirs s then (None, s)
      else (case mkdirall_err s path of
              Some err \<Rightarrow> (Some err, s)
            | None \<Rightarrow> (None, s\<lparr>dirs := insert path (set (ancestors path) \<union> dirs s)\<rparr>)))"

text \<open>
  \<^verbatim>\<open>os.RemoveAll\<close>: the path and everything below it is gone. The source discards the
  error of both calls; the removal is modelled as complete.
\<close>

definition within :: "string \<Rightarrow> string \<Rightarrow> bool" where
  "within root p = (p = root \<or> take (Suc (length root)) p = root @ ''/'')"

definition os_RemoveAll :: "string \<Rightarrow> sys \<Rightarrow> sys" where
  "os_RemoveAll path s =
     s\<lparr>dirs := {d \<in> dirs s. \<not> within path d},
       files := (\<lambda>p. if within path p then None else files s p)\<rparr>"

text \<open>
  \<^verbatim>\<open>os.Remove\<close>: fails as \<open>remove_err\<close> says, or when nothing has that name; otherwise
  the file (or directory) is removed.
\<close>

definition os_Remove :: "string \<Rightarrow> sys \<Rightarrow> go_error option \<times> sys" where
  "os_Remove name s =
     (case remove_err s name of
        Some err \<Rightarrow> (Some err, s)
      | None \<Rightarrow>
          (if IsExist s name
           then (None, s\<lparr>dirs := dirs s - {name}, files := (files s)(name := None)\<rparr>)
           else (Some (GoError False (''remove '' @ name @ '': no such file or directory'')), s)))"

text \<open>\<^verbatim>\<open>os.ReadFile\<close>, \<^verbatim>\<open>filelock.WriteFile\<close> and the JSON calls of gulu.\<close>

definition os_ReadFile :: "string \<Rightarrow> sys \<Rightarrow> go_error + file_data" where
  "os_ReadFile name s =
     (case readfile_err s name of
        Some err \<Rightarrow> Inl err
      | None \<Rightarrow>
          (case files s name of
             None \<Rightarrow> Inl (GoError False (''open '' @ name @ '': no such file or directory''))
           | Some data \<Rightarrow> Inr data))"

definition filelock_WriteFile :: "string \<Rightarrow> file_data \<Rightarrow> sys \<Rightarrow> go_error option \<times> sys" where
  "filelock_WriteFile name data s =
     (case writefile_err s name of
        Some err \<Rightarrow> (Some err, s)
      | None \<Rightarrow> (None, s\<lparr>files := (files s)(name \<mapsto> data)\<rparr>))"

definition UnmarshalJSON :: "file_data \<Rightarrow> string list \<Rightarrow> go_error option \<times> string list" where
  "UnmarshalJSON data ret =
     (case data of
        JSONStrings xs \<Rightarrow> (None, xs)
      | Other xs \<Rightarrow> (Some (GoError False ''invalid JSON''), xs))"

definition MarshalJSON :: "sys \<Rightarrow> string list \<Rightarrow> go_error + file_data" where
  "MarshalJSON s v =
     (case marshal_err s v of Some err \<Rightarrow> Inl err | None \<Rightarrow> Inr (JSONStrings v))"

text \<open>
  \<^verbatim>\<open>flock.TryLock\<close>: opening (and creating) the lock file can fail; a lock held by
  another process makes the call return \<^verbatim>\<open>false\<close> without an error; otherwise the handle
  holds the lock. \<^verbatim>\<open>flock.Unlock\<close>: nothing to do on a handle that holds no lock;
  otherwise the release fails as \<open>unlock_err\<close> says or the handle gives the lock up.
\<close>

definition Flock_TryLock :: "Flock \<Rightarrow> sys \<Rightarrow> (bool \<times> go_error option) \<times> Flock \<times> sys" where
  "Flock_TryLock f s =
     (if locked f then ((True, None), f, s)
      else (case trylock_err s (lock_path f) of
              Some err \<Rightarrow> ((False, Some err), f, s)
            | None \<Rightarrow>
                (let s1 = (if files s (lock_path f) = None
                           then s\<lparr>files := (files s)(lock_path f \<mapsto> Other [])\<rparr> else s)
                 in if lock_path f \<in> held_elsewhere s1 then ((False, None), f, s1)
                    else ((True, None), f\<lparr>locked := True\<rparr>, s1))))"

definition Flock_Unlock :: "Flock \<Rightarrow> sys \<Rightarrow> go_error option \<times> Flock \<times> sys" where
  "Flock_Unlock f s =
     (if \<not> locked f then (None, f, s)
      else (case unlock_err s (lock_path f) of
              Some err \<Rightarrow> (Some err, f, s)
            | None \<Rightarrow> (None, f\<lparr>locked := False\<rparr>, s)))"

subsection \<open>Environment variables\<close>

text \<open>
  \<^verbatim>\<open>initEnvVars\<close> (lines 58 to 64). When \<^verbatim>\<open>strconv.ParseBool\<close> fails, which it does
  on the empty string \<^verbatim>\<open>os.Getenv\<close> returns for an unset variable, the source assigns
  \<^verbatim>\<open>true\<close> (line 62).
\<close>

definition initEnvVars :: "sys \<Rightarrow> sys" where
  "initEnvVars s =
     (let s = s\<lparr>RunInContainer := inDocker s\<rparr>
      in case strconv_ParseBool (os_Getenv s ''SIYUAN_ACCESS_AUTH_CODE_BYPASS'') of
           Inr b \<Rightarrow> s\<lparr>SiyuanAccessAuthCodeBypass := b\<rparr>
         | Inl err \<Rightarrow> s\<lparr>SiyuanAccessAuthCodeBypass := True\<rparr>)"

subsection \<open>Boot progress\<close>

text \<open>
  \<^verbatim>\<open>bootProgress\<close> is an \<^verbatim>\<open>atomic.Int32\<close>: a 32-bit word, compared as a signed number
  (\<open>sint\<close>), whose \<^verbatim>\<open>Add\<close> wraps around. Each function below is one call, run without
  interruption.
\<close>

definition setBootDetails :: "string \<Rightarrow> sys \<Rightarrow> sys" where
  "setBootDetails details s = s\<lparr>bootDetails := ''v'' @ Ver @ '' '' @ details\<rparr>"


definition IncBootProgress :: "32 word \<Rightarrow> string \<Rightarrow> sys \<Rightarrow> sys" where
  "IncBootProgress progress details s =
     (if 100 \<le> sint (bootProgress s) then s
      else setBootDetails details (s\<lparr>bootProgress := bootProgress s + progress\<rparr>))"


definition GetBootProgressDetails :: "sys \<Rightarrow> 32 word \<times> string" where
  "GetBootProgressDetails s = (bootProgress s, bootDetails s)"

definition GetBootProgress :: "sys \<Rightarrow> 32 word" where
  "GetBootProgress s = bootProgress s"







subsection \<open>The path registry\<close>

text \<open>\<^verbatim>\<open>ReadWorkspacePaths\<close> (lines 313 to 341).\<close>

definition ReadWorkspacePaths :: "sys \<Rightarrow> (string list \<times> go_error option) \<times> sys" where
  "ReadWorkspacePaths s =
     (let ret = [];
          workspaceConf = filepath_Join [HomeDir s, ''.config'', ''siyuan'', ''workspace.json'']
      in case os_ReadFile workspaceConf s of
           Inl err \<Rightarrow>
             (let msg = ''read workspace conf ['' @ workspaceConf @ ''] failed: '' @ Error err
              in ((ret, Some (errors_New msg)), logf (LogError msg) s))
         | Inr data \<Rightarrow>
             (case UnmarshalJSON data ret of
                (Some err, ret) \<Rightarrow>
                  (let msg = ''unmarshal workspace conf ['' @ workspaceConf @ ''] failed: ''
                             @ Error err
                   in ((ret, Some (errors_New msg)), logf (LogError msg) s))
              | (None, ret) \<Rightarrow>
                  (let tmp = filter (IsDir s)
                               (map (\<lambda>d. strings_TrimRight d [CHR '' '', CHR 0x09, CHR 0x0A]) ret);
                       ret = RemoveDuplicatedElem tmp
                   in ((ret, None), s))))"

text \<open>\<^verbatim>\<open>WriteWorkspacePaths\<close> (lines 343 to 361).\<close>

definition WriteWorkspacePaths :: "string list \<Rightarrow> sys \<Rightarrow> go_error option \<times> sys" where
  "WriteWorkspacePaths workspacePaths s =
     (let workspacePaths = RemoveDuplicatedElem workspacePaths;
          workspaceConf = filepath_Join [HomeDir s, ''.config'', ''siyuan'', ''workspace.json'']
      in case MarshalJSON s workspacePaths of
           Inl err \<Rightarrow>
             (let msg = ''marshal workspace conf ['' @ workspaceConf @ ''] failed: '' @ Error err
              in (Some (errors_New msg), logf (LogError msg) s))
         | Inr data \<Rightarrow>
             (case filelock_WriteFile workspaceConf data s of
                (Some err, s) \<Rightarrow>
                  (let msg = ''write workspace conf ['' @ workspaceConf @ ''] failed: ''
                             @ Error err
                   in (Some (errors_New msg), logf (LogError msg) s))
              | (None, s) \<Rightarrow> (None, s)))"

subsection \<open>Workspace resolution\<close>

text \<open>
  \<^verbatim>\<open>initWorkspaceDir\<close> (lines 239 to 311), block by block, each block a definition of
  its own; \<open>initWorkspaceDir\<close> below puts them together in the source's order.
\<close>

text \<open>The test \<^verbatim>\<open>err != nil && !os.IsExist(err)\<close>.\<close>

definition failed :: "go_error option \<Rightarrow> bool" where
  "failed err = (case err of None \<Rightarrow> False | Some e \<Rightarrow> \<not> os_IsExist e)"

definition errText :: "go_error option \<Rightarrow> string" where
  "errText err = (case err of None \<Rightarrow> ''<nil>'' | Some e \<Rightarrow> Error e)"

definition userHomeConfDir :: "sys \<Rightarrow> string" where
  "userHomeConfDir s = filepath_Join [HomeDir s, ''.config'', ''siyuan'']"

definition workspaceConf :: "sys \<Rightarrow> string" where
  "workspaceConf s = filepath_Join [userHomeConfDir s, ''workspace.json'']"

text \<open>Lines 244 to 249.\<close>

definition ensureUserHomeConfDir :: "sys \<Rightarrow> proc" where
  "ensureUserHomeConfDir s =
     (if \<not> IsExist s (workspaceConf s)
      then (case os_MkdirAll (userHomeConfDir s) s of
              (err, s) \<Rightarrow>
                if failed err
                then Inl (ExitCodeInitWorkspaceErr,
                          logf (LogError (''create user home conf folder ['' @ userHomeConfDir s
                                          @ ''] failed: '' @ errText err)) s)
                else Inr s)
      else Inr s)"

text \<open>Lines 251 to 257; \<^verbatim>\<open>gulu.OS.IsWindows()\<close> tests \<^verbatim>\<open>runtime.GOOS\<close>.\<close>

definition defaultWorkspaceDir :: "sys \<Rightarrow> string" where
  "defaultWorkspaceDir s =
     (let dflt = filepath_Join [HomeDir s, ''SiYuan'']
      in if GOOS s = ''windows''
         then (let userProfile = os_Getenv s ''USERPROFILE''
               in if userProfile \<noteq> [] then filepath_Join [userProfile, ''SiYuan''] else dflt)
         else dflt)"

text \<open>
  Lines 259 to 273: the registry is read when its file exists (the error of
  \<^verbatim>\<open>ReadWorkspacePaths\<close> is dropped), its last element is the candidate; a non-empty
  argument replaces the candidate. The result is the list \<^verbatim>\<open>workspacePaths\<close> and the
  state with \<^verbatim>\<open>WorkspaceDir\<close> assigned.
\<close>

definition chooseWorkspaceDir :: "string \<Rightarrow> sys \<Rightarrow> string list \<times> sys" where
  "chooseWorkspaceDir workspaceArg s =
     (let (workspacePaths, s) =
            (if \<not> IsExist s (workspaceConf s)
             then ([], s\<lparr>WorkspaceDir := defaultWorkspaceDir s\<rparr>)
             else (case ReadWorkspacePaths s of
                     ((workspacePaths, err), s) \<Rightarrow>
                       if 0 < length workspacePaths
                       then (workspacePaths, s\<lparr>WorkspaceDir := last workspacePaths\<rparr>)
                       else (workspacePaths, s\<lparr>WorkspaceDir := defaultWorkspaceDir s\<rparr>)))
      in if workspaceArg \<noteq> [] then (workspacePaths, s\<lparr>WorkspaceDir := workspaceArg\<rparr>)
         else (workspacePaths, s))"

text \<open>Lines 275 to 282.\<close>

definition fallBackToDefault :: "sys \<Rightarrow> proc" where
  "fallBackToDefault s =
     (if \<not> IsDir s (WorkspaceDir s)
      then (let s = logf (LogWarn (''use the default workspace ['' @ defaultWorkspaceDir s
                                   @ ''] since the specified workspace ['' @ WorkspaceDir s
                                   @ ''] is not a dir'')) s
            in case os_MkdirAll (defaultWorkspaceDir s) s of
                 (err, s) \<Rightarrow>
                   if failed err
                   then Inl (ExitCodeInitWorkspaceErr,
                             logf (LogError (''create default workspace folder [''
                                             @ defaultWorkspaceDir s @ ''] failed: ''
                                             @ errText err)) s)
                   else Inr (s\<lparr>WorkspaceDir := defaultWorkspaceDir s\<rparr>))
      else Inr s)"

text \<open>Lines 283 to 288.\<close>

definition persistWorkspacePaths :: "string list \<Rightarrow> sys \<Rightarrow> proc" where
  "persistWorkspacePaths workspacePaths s =
     (let workspacePaths = workspacePaths @ [WorkspaceDir s]
      in case WriteWorkspacePaths workspacePaths s of
           (Some err, s) \<Rightarrow>
             Inl (ExitCodeInitWorkspaceErr,
                  logf (LogError (''write workspace conf ['' @ workspaceConf s @ ''] failed: ''
                                  @ Error err)) s)
         | (None, s) \<Rightarrow> Inr s)"

text \<open>Lines 290 to 310.\<close>

definition deriveLayout :: "sys \<Rightarrow> proc" where
  "deriveLayout s =
     (let s = s\<lparr>WorkspaceName := filepath_Base (WorkspaceDir s)\<rparr>;
          s = s\<lparr>ConfDir := filepath_Join [WorkspaceDir s, ''conf'']\<rparr>;
          s = s\<lparr>DataDir := filepath_Join [WorkspaceDir s, ''data'']\<rparr>;
          s = s\<lparr>RepoDir := filepath_Join [WorkspaceDir s, ''repo'']\<rparr>;
          s = s\<lparr>HistoryDir := filepath_Join [WorkspaceDir s, ''history'']\<rparr>;
          s = s\<lparr>TempDir := filepath_Join [WorkspaceDir s, ''temp'']\<rparr>;
          osTmpDir = filepath_Join [TempDir s, ''os''];
          s = os_RemoveAll osTmpDir s
      in case os_MkdirAll osTmpDir s of
           (Some err, s) \<Rightarrow>
             Inl (ExitCodeInitWorkspaceErr,
                  logf (LogError (''create os tmp dir ['' @ osTmpDir @ ''] failed: ''
                                  @ Error err)) s)
         | (None, s) \<Rightarrow>
             (let s = os_RemoveAll (filepath_Join [TempDir s, ''repo'']) s;
                  s = os_Setenv ''TMPDIR'' osTmpDir s;
                  s = os_Setenv ''TEMP'' osTmpDir s;
                  s = os_Setenv ''TMP'' osTmpDir s;
                  s = s\<lparr>DBPath := filepath_Join [TempDir s, DBName s]\<rparr>;
                  s = s\<lparr>HistoryDBPath := filepath_Join [TempDir s, ''history.db'']\<rparr>;
                  s = s\<lparr>AssetContentDBPath := filepath_Join [TempDir s, ''asset_content.db'']\<rparr>;
                  s = s\<lparr>BlockTreeDBPath := filepath_Join [TempDir s, ''blocktree.db'']\<rparr>;
                  s = s\<lparr>SnippetsPath := filepath_Join [DataDir s, ''snippets'']\<rparr>
              in Inr s))"

definition initWorkspaceDir :: "string \<Rightarrow> sys \<Rightarrow> proc" where
  "initWorkspaceDir workspaceArg s =
     (let s = s\<lparr>logging_path := filepath_Join [userHomeConfDir s, ''kernel.log'']\<rparr>
      in andThen (ensureUserHomeConfDir s) (\<lambda>s.
           case chooseWorkspaceDir workspaceArg s of
             (workspacePaths, s) \<Rightarrow>
               andThen (fallBackToDefault s) (\<lambda>s.
                 andThen (persistWorkspacePaths workspacePaths s) deriveLayout)))"

subsection \<open>The workspace lock\<close>

text \<open>
  \<^verbatim>\<open>tryLockWorkspace\<close> (lines 516 to 528). \<^verbatim>\<open>WorkspaceLock\<close> points to the handle
  \<^verbatim>\<open>flock.New\<close> returns, whether or not the lock is then acquired.
\<close>

definition tryLockWorkspace :: "sys \<Rightarrow> proc" where
  "tryLockWorkspace s =
     (let f = \<lparr>lock_path = filepath_Join [WorkspaceDir s, ''.lock''], locked = False\<rparr>
      in case Flock_TryLock f s of
           ((ok, err), f, s) \<Rightarrow>
             (let s = s\<lparr>WorkspaceLock := Some f\<rparr>
              in if ok then Inr s
                 else Inl (ExitCodeWorkspaceLocked,
                           logf (LogError
                                  (case err of
                                     Some e \<Rightarrow> ''lock workspace ['' @ WorkspaceDir s
                                               @ ''] failed: '' @ Error e
                                   | None \<Rightarrow> ''lock workspace ['' @ WorkspaceDir s
                                             @ ''] failed'')) s)))"

text \<open>\<^verbatim>\<open>UnlockWorkspace\<close> (lines 549 to 563).\<close>

definition UnlockWorkspace :: "sys \<Rightarrow> sys" where
  "UnlockWorkspace s =
     (case WorkspaceLock s of
        None \<Rightarrow> s
      | Some f \<Rightarrow>
          (case Flock_Unlock f s of
             (Some err, f, s) \<Rightarrow>
               logf (LogError (''unlock workspace ['' @ WorkspaceDir s @ ''] failed: ''
                               @ Error err))
                 (s\<lparr>WorkspaceLock := Some f\<rparr>)
           | (None, f, s) \<Rightarrow>
               (let s = s\<lparr>WorkspaceLock := Some f\<rparr>
                in case os_Remove (filepath_Join [WorkspaceDir s, ''.lock'']) s of
                     (Some err, s) \<Rightarrow>
                       logf (LogError (''remove workspace lock failed: '' @ Error err)) s
                   | (None, s) \<Rightarrow> s)))"

subsection \<open>The directories of the workspace\<close>

text \<open>
  \<^verbatim>\<open>initPathDir\<close> (lines 387 to 428) repeats one step nine times: \<^verbatim>\<open>os.MkdirAll\<close>, and
  \<^verbatim>\<open>logging.LogFatalf\<close> with the initialization status when it fails with an error that
  is not "exists". The last three messages of the source print the path of the widgets
  folder; so do these.
\<close>

definition mkdirOrFatal :: "string \<Rightarrow> string \<Rightarrow> string \<Rightarrow> sys \<Rightarrow> proc" where
  "mkdirOrFatal dir what shown s =
     (case os_MkdirAll dir s of
        (err, s) \<Rightarrow>
          if failed err
          then Inl (ExitCodeInitWorkspaceErr,
                    logf (LogFatal (''create '' @ what @ '' folder ['' @ shown @ ''] failed: ''
                                    @ errText err)) s)
          else Inr s)"

definition initPathDir :: "sys \<Rightarrow> proc" where
  "initPathDir s =
     (let assets = filepath_Join [DataDir s, ''assets''];
          templates = filepath_Join [DataDir s, ''templates''];
          widgets = filepath_Join [DataDir s, ''widgets''];
          plugins = filepath_Join [DataDir s, ''plugins''];
          emojis = filepath_Join [DataDir s, ''emojis''];
          public = filepath_Join [DataDir s, ''public'']
      in andThen (mkdirOrFatal (ConfDir s) ''conf'' (ConfDir s) s) (\<lambda>s.
         andThen (mkdirOrFatal (DataDir s) ''data'' (DataDir s) s) (\<lambda>s.
         andThen (mkdirOrFatal (TempDir s) ''temp'' (TempDir s) s) (\<lambda>s.
         andThen (mkdirOrFatal assets ''data assets'' assets s) (\<lambda>s.
         andThen (mkdirOrFatal templates ''data templates'' templates s) (\<lambda>s.
         andThen (mkdirOrFatal widgets ''data widgets'' widgets s) (\<lambda>s.
         andThen (mkdirOrFatal plugins ''data plugins'' widgets s) (\<lambda>s.
         andThen (mkdirOrFatal emojis ''data emojis'' widgets s) (\<lambda>s.
         mkdirOrFatal public ''data public'' widgets s)))))))))"

subsection \<open>Boot\<close>

text \<open>
  The command line as \<^verbatim>\<open>flag.Parse\<close> leaves it: for each flag the value given, or
  \<open>None\<close> when the flag is absent and its default applies.
\<close>

record cmdline =
  arg_workspace :: "string option"
  arg_wd :: "string option"
  arg_port :: "string option"
  arg_readonly :: "string option"
  arg_accessAuthCode :: "string option"
  arg_ssl :: "bool option"
  arg_lang :: "string option"
  arg_mode :: "string option"

definition flag_value :: "'a option \<Rightarrow> 'a \<Rightarrow> 'a" where
  "flag_value given dflt = (case given of None \<Rightarrow> dflt | Some v \<Rightarrow> v)"

text \<open>
  \<^verbatim>\<open>Boot\<close> (lines 78 to 160). Left out, as they touch nothing of the state modelled here:
  \<^verbatim>\<open>rand.Seed\<close>, \<^verbatim>\<open>initMime\<close>, \<^verbatim>\<open>initHttpClient\<close>, \<^verbatim>\<open>httpclient.SetUserAgent\<close>, the
  banner and \<^verbatim>\<open>logBootInfo\<close>. The message of line 110 is written in Chinese in the
  source and in English here.
\<close>

definition Boot :: "cmdline \<Rightarrow> sys \<Rightarrow> proc" where
  "Boot cl s =
     (let s = initEnvVars s;
          s = IncBootProgress 3 ''Booting kernel...'' s;
          workspacePath = flag_value (arg_workspace cl) [];
          wdPath = flag_value (arg_wd cl) (WorkingDir s);
          port = flag_value (arg_port cl) ''0'';
          readOnly = flag_value (arg_readonly cl) ''false'';
          accessAuthCode = flag_value (arg_accessAuthCode cl) [];
          ssl = flag_value (arg_ssl cl) False;
          lang = flag_value (arg_lang cl) ''zh_CN'';
          mode = flag_value (arg_mode cl) ''prod'';
          s = (if wdPath \<noteq> [] then s\<lparr>WorkingDir := wdPath\<rparr> else s);
          s = (if lang \<noteq> [] then s\<lparr>Lang := lang\<rparr> else s);
          s = s\<lparr>Mode := mode\<rparr>;
          s = s\<lparr>ServerPort := port\<rparr>;
          s = s\<lparr>ReadOnly := (case strconv_ParseBool readOnly of Inr b \<Rightarrow> b | Inl err \<Rightarrow> False)\<rparr>;
          s = s\<lparr>AccessAuthCodeG := accessAuthCode\<rparr>;
          s = s\<lparr>Container := ContainerStd\<rparr>
      in andThen
           (if RunInContainer s
            then (let s = s\<lparr>Container := ContainerDocker\<rparr>;
                      s = logf (LogInfo (''boot init, read config AccessAuthCode: ''
                                         @ AccessAuthCodeG s)) s
                  in if AccessAuthCodeG s = []
                     then (let interruptBoot = True;
                               (interruptBoot, s) =
                                 (if SiyuanAccessAuthCodeBypass s
                                  then (False,
                                        logf (Print (''bypass access auth code check since the env ''
                                          @ ''[SIYUAN_ACCESS_AUTH_CODE_BYPASS] is set to [true]'')) s)
                                  else (interruptBoot, s))
                           in if interruptBoot
                              then Inl (Exit1,
                                        logf (Print (''the access authorization code command line ''
                                          @ ''parameter (--accessAuthCode) must be set when ''
                                          @ ''deploying via Docker'')) s)
                              else Inr s)
                     else Inr s)
            else Inr s)
           (\<lambda>s.
              let s = (if ContainerStd \<noteq> Container s then s\<lparr>ServerPort := FixedPort\<rparr> else s);
                  msStoreFilePath = filepath_Join [WorkingDir s, ''ms-store''];
                  s = s\<lparr>ISMicrosoftStore := IsExist s msStoreFilePath\<rparr>;
                  s = s\<lparr>UserAgent := UserAgent s @ '' '' @ Container s @ ''/'' @ GOOS s\<rparr>
              in andThen (initWorkspaceDir workspacePath s) (\<lambda>s.
                   let s = s\<lparr>SSL := ssl\<rparr>;
                       s = s\<lparr>LogPath := filepath_Join [TempDir s, ''siyuan.log'']\<rparr>;
                       s = s\<lparr>logging_path := LogPath s\<rparr>
                   in andThen (tryLockWorkspace s) (\<lambda>s.
                        let s = s\<lparr>AppearancePath := filepath_Join [ConfDir s, ''appearance'']\<rparr>;
                            s = (if Mode s = ''dev''
                                 then s\<lparr>ThemesPath :=
                                          filepath_Join [WorkingDir s, ''appearance'', ''themes''],
                                        IconsPath :=
                                          filepath_Join [WorkingDir s, ''appearance'', ''icons'']\<rparr>
                                 else s\<lparr>ThemesPath :=
                                          filepath_Join [AppearancePath s, ''themes''],
                                        IconsPath :=
                                          filepath_Join [AppearancePath s, ''icons'']\<rparr>)
                        in initPathDir s))))"

subsection \<open>The process at its start\<close>

text \<open>
  The initial values of the package variables (the \<^verbatim>\<open>var\<close> blocks of \<^verbatim>\<open>working.go\<close>),
  set over a given operating system. \<^verbatim>\<open>HomeDir\<close> and \<^verbatim>\<open>WorkingDir\<close> come from the
  operating system and \<^verbatim>\<open>UserAgent\<close> from another file: they are taken as given.
\<close>

definition package_init :: "sys \<Rightarrow> sys" where
  "package_init os =
     os\<lparr>Mode := ''prod'', RunInContainer := False, SiyuanAccessAuthCodeBypass := True,
        bootProgress := 0, bootDetails := [], HttpServing := False,
        WorkspaceDir := [], WorkspaceName := [], WorkspaceLock := None,
        ConfDir := [], DataDir := [], RepoDir := [], HistoryDir := [], TempDir := [],
        LogPath := [], DBName := ''siyuan.db'', DBPath := [], HistoryDBPath := [],
        AssetContentDBPath := [], BlockTreeDBPath := [], AppearancePath := [],
        ThemesPath := [], IconsPath := [], SnippetsPath := [],
        ServerPort := ''0'', ReadOnly := False, AccessAuthCodeG := [], Lang := [],
        Container := [], ISMicrosoftStore := False, SSL := False\<rparr>"

text \<open>
  An operating system to run examples on: Linux, home directory \<open>/h\<close>, the given
  directories and files on disk, no call failing, no lock held by another process.
\<close>

definition plain_os :: "string set \<Rightarrow> (string \<rightharpoonup> file_data) \<Rightarrow> sys" where
  "plain_os ds fs =
     \<lparr>Mode = [], RunInContainer = False, SiyuanAccessAuthCodeBypass = False,
      bootProgress = 0, bootDetails = [], HttpServing = False,
      HomeDir = ''/h'', WorkingDir = ''/app'',
      WorkspaceDir = [], WorkspaceName = [], WorkspaceLock = None,
      ConfDir = [], DataDir = [], RepoDir = [], HistoryDir = [], TempDir = [],
      LogPath = [], DBName = [], DBPath = [], HistoryDBPath = [],
      AssetContentDBPath = [], BlockTreeDBPath = [], AppearancePath = [],
      ThemesPath = [], IconsPath = [], SnippetsPath = [],
      ServerPort = [], ReadOnly = False, AccessAuthCodeG = [], Lang = [],
      Container = [], ISMicrosoftStore = False, SSL = False, UserAgent = ''SiYuan/3.1.11'',
      GOOS = ''linux'', inDocker = False, environ = Map.empty,
      dirs = ds, files = fs,
      mkdirall_err = Map.empty, readfile_err = Map.empty, writefile_err = Map.empty,
      marshal_err = Map.empty, trylock_err = Map.empty, held_elsewhere = {},
      unlock_err = Map.empty, remove_err = Map.empty,
      logs = [], logging_path = []\<rparr>"


text \<open>A command line without any flag, and the same process inside a Docker container.\<close>

definition no_flags :: cmdline where
  "no_flags = \<lparr>arg_workspace = None, arg_wd = None, arg_port = None, arg_readonly = None,
                arg_accessAuthCode = None, arg_ssl = None, arg_lang = None, arg_mode = None\<rparr>"

definition docker_start :: "(string \<rightharpoonup> string) \<Rightarrow> sys" where
  "docker_start env = package_init ((plain_os {} Map.empty)\<lparr>inDocker := True, environ := env\<rparr>)"

subsection \<open>Notions used in the statements about workspace resolution\<close>

text \<open>
  The list \<^verbatim>\<open>workspacePaths\<close> as lines 259 to 269 of \<^verbatim>\<open>initWorkspaceDir\<close> have it
  before the append: empty when the registry file does not exist, else what
  \<^verbatim>\<open>ReadWorkspacePaths\<close> returns.
\<close>

definition loaded_registry :: "sys \<Rightarrow> string list" where
  "loaded_registry s =
     (if \<not> IsExist s (workspaceConf s) then [] else fst (fst (ReadWorkspacePaths s)))"

text \<open>
  The selection order in the words of the spec: a non-empty explicit override wins;
  otherwise the last element of a non-empty registry; otherwise the default. If the
  target chosen so is not an existing directory, the default is selected.
\<close>

definition spec_target :: "string \<Rightarrow> string list \<Rightarrow> string \<Rightarrow> string" where
  "spec_target override registry dflt =
     (if override \<noteq> [] then override
      else if registry \<noteq> [] then last registry
      else dflt)"

definition spec_select :: "(string \<Rightarrow> bool) \<Rightarrow> string \<Rightarrow> string \<Rightarrow> string" where
  "spec_select is_dir target dflt = (if is_dir target then target else dflt)"

text \<open>The trimming \<^verbatim>\<open>ReadWorkspacePaths\<close> applies to every stored entry (line 333).\<close>

definition trim_entry :: "string \<Rightarrow> string" where
  "trim_entry d = strings_TrimRight d [CHR '' '', CHR 0x09, CHR 0x0A]"

text \<open>
  The paths that lines 297 and 302 remove for a workspace directory: everything at or
  below its \<open>temp/os\<close> and \<open>temp/repo\<close>.
\<close>

definition wiped :: "string \<Rightarrow> string \<Rightarrow> bool" where
  "wiped wsdir p =
     (within (filepath_Join [filepath_Join [wsdir, ''temp''], ''os'']) p
      \<or> within (filepath_Join [filepath_Join [wsdir, ''temp''], ''repo'']) p)"

text \<open>No directory creation, JSON encoding or file write fails for outside reasons.\<close>

definition no_failures :: "sys \<Rightarrow> bool" where
  "no_failures s =
     (mkdirall_err s = Map.empty \<and> marshal_err s = Map.empty \<and> writefile_err s = Map.empty)"

text \<open>
  What workspace resolution reads but never changes before the layout is derived: the
  home directory, the platform, the environment and the tables of failures.
\<close>

definition same_setting :: "sys \<Rightarrow> sys \<Rightarrow> bool" where
  "same_setting s s' =
     (HomeDir s' = HomeDir s \<and> GOOS s' = GOOS s \<and> environ s' = environ s
      \<and> mkdirall_err s' = mkdirall_err s \<and> readfile_err s' = readfile_err s
      \<and> writefile_err s' = writefile_err s \<and> marshal_err s' = marshal_err s)"

section \<open>Properties of the session binding\<close>

text \<open>
  C8. \<^verbatim>\<open>NeedCaptcha()\<close> is true exactly when the wrong-authorization counter is strictly
  greater than 3: false at 3, true at 4.
\<close>

theorem NeedCaptcha_threshold:
  "NeedCaptcha c = (3 < c) \<and> NeedCaptcha 3 = False \<and> NeedCaptcha 4 = True"
  by (simp add: NeedCaptcha_def)

text \<open>
  C9. \<^verbatim>\<open>GetWorkspaceSession\<close> returns a pointer that is not \<^verbatim>\<open>nil\<close> and that the
  session stores under the current workspace path. When the session already stores an
  entry there, that pointer is returned and neither the store (so neither
  \<^verbatim>\<open>AccessAuthCode\<close> nor \<^verbatim>\<open>Captcha\<close> of any entry) nor the session changes; otherwise
  the entry is a new zero-valued one, and the entries that existed keep their addresses and
  contents. A second call right after the first returns the same pointer and changes
  nothing.
\<close>

theorem GetWorkspaceSession_entry:
  "(case GetWorkspaceSession wd (h, session) of
      (ret, h', session') \<Rightarrow>
        ret \<noteq> NilPtr
      \<and> entry_of (Workspaces session') wd = Some ret
      \<and> (\<forall>a. entry_of (Workspaces session) wd = Some (Ref a) \<longrightarrow>
             ret = Ref a \<and> h' = h \<and> session' = session)
      \<and> (index_map (Workspaces session) wd = NilPtr \<longrightarrow>
             ret = Ref (length h) \<and> h' = h @ [zeroWorkspaceSession])
      \<and> GetWorkspaceSession wd (h', session') = (ret, h', session'))"
  by (cases "Workspaces session")
     (auto simp: GetWorkspaceSession_def index_map_def entry_of_def Let_def
           split: option.splits ptr.splits)

theorem GetWorkspaceSession_entry_witness:
  "entry_of (Workspaces \<lparr>Workspaces = Some [''/w1'' \<mapsto> Ref 0]\<rparr>) ''/w1'' = Some (Ref 0)
   \<and> GetWorkspaceSession ''/w1''
        ([\<lparr>AccessAuthCode = ''code'', Captcha = ''abcd''\<rparr>],
         \<lparr>Workspaces = Some [''/w1'' \<mapsto> Ref 0]\<rparr>)
      = (Ref 0, [\<lparr>AccessAuthCode = ''code'', Captcha = ''abcd''\<rparr>],
         \<lparr>Workspaces = Some [''/w1'' \<mapsto> Ref 0]\<rparr>)
   \<and> index_map (Workspaces \<lparr>Workspaces = None\<rparr>) ''/w1'' = NilPtr
   \<and> fst (GetWorkspaceSession ''/w1'' ([], \<lparr>Workspaces = None\<rparr>)) = Ref 0
   \<and> fst (snd (GetWorkspaceSession ''/w1'' ([], \<lparr>Workspaces = None\<rparr>)))
      = [zeroWorkspaceSession]"
  using GetWorkspaceSession_entry
          [where wd = "''/w1''"
             and h = "[\<lparr>AccessAuthCode = ''code'', Captcha = ''abcd''\<rparr>]"
             and session = "\<lparr>Workspaces = Some [''/w1'' \<mapsto> Ref 0]\<rparr>"]
        GetWorkspaceSession_entry
          [where wd = "''/w1''" and h = "[]" and session = "\<lparr>Workspaces = None\<rparr>"]
  by (simp add: GetWorkspaceSession_def index_map_def entry_of_def Let_def)

text \<open>
  C7. \<^verbatim>\<open>RemoveWorkspaceSession\<close> leaves the session without an entry under the current
  workspace path, and the entry under every other path as it was; the store of entries
  is untouched.
\<close>

theorem RemoveWorkspaceSession_frame:
  "(case RemoveWorkspaceSession wd (h, session) of
      (h', session') \<Rightarrow>
        h' = h
      \<and> entry_of (Workspaces session') wd = None
      \<and> (\<forall>dir. dir \<noteq> wd \<longrightarrow>
             entry_of (Workspaces session') dir = entry_of (Workspaces session) dir))"
  by (auto simp: RemoveWorkspaceSession_def entry_of_def split: option.splits)

text \<open>
  The scenario of the spec: an entry is made under \<open>/w1\<close>, then one under \<open>/w2\<close>; removing
  under \<open>/w2\<close> leaves the entry of \<open>/w1\<close> in place.
\<close>

theorem RemoveWorkspaceSession_frame_witness:
  "''/w1'' \<noteq> ''/w2''
   \<and> (case GetWorkspaceSession ''/w1'' ([], \<lparr>Workspaces = None\<rparr>) of
        (p1, hs1) \<Rightarrow>
          (case GetWorkspaceSession ''/w2'' hs1 of
             (p2, hs2) \<Rightarrow>
               p1 = Ref 0 \<and> p2 = Ref 1
             \<and> entry_of (Workspaces (snd hs2)) ''/w1'' = Some (Ref 0)
             \<and> entry_of (Workspaces (snd hs2)) ''/w2'' = Some (Ref 1)
             \<and> entry_of (Workspaces (snd (RemoveWorkspaceSession ''/w2'' hs2))) ''/w1''
                 = Some (Ref 0)
             \<and> entry_of (Workspaces (snd (RemoveWorkspaceSession ''/w2'' hs2))) ''/w2''
                 = None
             \<and> fst (RemoveWorkspaceSession ''/w2'' hs2) = fst hs2))"
  using RemoveWorkspaceSession_frame
          [where wd = "''/w2''" and h = "[zeroWorkspaceSession, zeroWorkspaceSession]"
             and session = "\<lparr>Workspaces = Some [''/w1'' \<mapsto> Ref 0, ''/w2'' \<mapsto> Ref 1]\<rparr>"]
  by (simp add: GetWorkspaceSession_def RemoveWorkspaceSession_def index_map_def
                entry_of_def Let_def)

section \<open>Properties of the boot sequencer\<close>


lemma bootProgress_setBootDetails [simp]:
  "bootProgress (setBootDetails d s) = bootProgress s"
  by (simp add: setBootDetails_def)

lemma bootProgress_logf [simp]: "bootProgress (logf e s) = bootProgress s"
  by (simp add: logf_def)

















end
